theory Spec2Isabelle
  imports Complex_Main
begin

section \<open>The tokenomics simulation engine (tokenomics_simulator.py)\<close>

text \<open>
  The engine is the single function \<open>run_simulation\<close>. It reads its parameters from a
  dictionary with \<open>parameters.get(key)\<close>, which yields Python's \<open>None\<close> for an absent key,
  computes the initial locked allocations and the monthly unlock amounts, and then runs one
  loop iteration per month, appending one record per month to the list \<open>data\<close>.

  Numbers are modelled in exact arithmetic: token amounts and percentages are reals, month
  counts are integers (the request model of main.py types them so, and \<open>range\<close> needs an
  integer). A dictionary entry is an \<open>option\<close>: \<open>None\<close> is what \<open>parameters.get\<close> returns
  for an absent key. Using \<open>None\<close> in arithmetic or in a comparison raises Python's
  \<open>TypeError\<close>; this is the only exception the function can raise on such input.
\<close>

subsection \<open>Data\<close>

datatype error = TypeError

record parameters =
  total_supply :: "real option"
  initial_circulating_supply :: "real option"
  simulation_duration_months :: "int option"
  team_allocation_pct :: "real option"
  private_sale_pct :: "real option"
  public_sale_pct :: "real option"
  treasury_pct :: "real option"
  community_rewards_pct :: "real option"
  liquidity_mining_pct :: "real option"
  team_cliff_months :: "int option"
  team_vesting_linear_months :: "int option"
  private_sale_cliff_months :: "int option"
  private_sale_vesting_linear_months :: "int option"
  monthly_emission_tokens :: "real option"
  transaction_fee_burn_pct :: "real option"
  monthly_simulated_transactions :: "real option"

text \<open>One dictionary appended to \<open>data\<close> (lines 95-105); the field \<open>r_k\<close> is the key \<open>k\<close>.\<close>

record month_record =
  r_month :: int
  r_total_supply :: real
  r_circulating_supply :: real
  r_unlocked_team :: real
  r_unlocked_private_sale :: real
  r_minted_tokens :: real
  r_burned_tokens :: real
  r_current_team_locked :: real
  r_current_private_sale_locked :: real

text \<open>
  The local variables that live across loop iterations. \<open>current_circulating_supply\<close> is
  copied from the dictionary without being used before the loop (line 48), so it may still be
  \<open>None\<close> when the loop starts.
\<close>

record sim_state =
  current_total_supply :: real
  current_circulating_supply :: "real option"
  current_team_locked :: real
  current_private_sale_locked :: real
  team_monthly_unlock_amount :: real
  private_sale_monthly_unlock_amount :: real
  data :: "month_record list"

subsection \<open>Errors as values\<close>

text \<open>\<open>num v\<close> is the use of \<open>v\<close> as an operand: \<open>None\<close> raises \<open>TypeError\<close>.\<close>

fun num :: "'a option \<Rightarrow> error + 'a" where
  "num None = Inl TypeError"
| "num (Some x) = Inr x"

fun and_then :: "error + 'a \<Rightarrow> ('a \<Rightarrow> error + 'b) \<Rightarrow> error + 'b" where
  "and_then (Inl e) f = Inl e"
| "and_then (Inr x) f = f x"

subsection \<open>Before the loop (lines 15-62)\<close>

text \<open>Line 38: \<open>parameters.get('monthly_simulated_transactions', 1000000)\<close>.\<close>

definition get_monthly_simulated_transactions :: "parameters \<Rightarrow> real" where
  "get_monthly_simulated_transactions p =
     (case monthly_simulated_transactions p of None \<Rightarrow> 1000000 | Some v \<Rightarrow> v)"

text \<open>
  Lines 43-62. The two products of lines 44-45 and the two comparisons of lines 57 and 61 are
  the places where an absent entry raises.
\<close>

definition init_state :: "parameters \<Rightarrow> error + sim_state" where
  "init_state p =
     and_then (num (total_supply p)) (\<lambda>ts.
     and_then (num (team_allocation_pct p)) (\<lambda>tpct.
     let initial_team_locked = ts * tpct in
     and_then (num (private_sale_pct p)) (\<lambda>ppct.
     let initial_private_sale_locked = ts * ppct in
     and_then (num (team_vesting_linear_months p)) (\<lambda>tv.
     let team_unlock = (if tv > 0 then initial_team_locked / real_of_int tv else 0) in
     and_then (num (private_sale_vesting_linear_months p)) (\<lambda>pv.
     let private_unlock =
           (if pv > 0 then initial_private_sale_locked / real_of_int pv else 0) in
     Inr \<lparr> current_total_supply = ts,
           current_circulating_supply = initial_circulating_supply p,
           current_team_locked = initial_team_locked,
           current_private_sale_locked = initial_private_sale_locked,
           team_monthly_unlock_amount = team_unlock,
           private_sale_monthly_unlock_amount = private_unlock,
           data = [] \<rparr>)))))"

subsection \<open>One loop iteration (lines 66-105)\<close>

definition month_step :: "parameters \<Rightarrow> sim_state \<Rightarrow> int \<Rightarrow> error + sim_state" where
  "month_step p st month =
     and_then (num (team_cliff_months p)) (\<lambda>tc.
     let unlocked_team_this_month =
           (if month > tc \<and> current_team_locked st > 0
            then min (team_monthly_unlock_amount st) (current_team_locked st) else 0);
         team_locked = current_team_locked st - unlocked_team_this_month in
     and_then (num (private_sale_cliff_months p)) (\<lambda>pc.
     let unlocked_private_sale_this_month =
           (if month > pc \<and> current_private_sale_locked st > 0
            then min (private_sale_monthly_unlock_amount st) (current_private_sale_locked st)
            else 0);
         private_locked = current_private_sale_locked st - unlocked_private_sale_this_month in
     and_then (num (transaction_fee_burn_pct p)) (\<lambda>fee.
     let burned_tokens_this_month = get_monthly_simulated_transactions p * fee in
     and_then (num (monthly_emission_tokens p)) (\<lambda>minted_tokens_this_month.
     let total = current_total_supply st
                   + (minted_tokens_this_month - burned_tokens_this_month) in
     and_then (num (current_circulating_supply st)) (\<lambda>circ.
     let circulating = circ + (unlocked_team_this_month + unlocked_private_sale_this_month
                                 + minted_tokens_this_month - burned_tokens_this_month) in
     Inr (st \<lparr> current_total_supply := total,
               current_circulating_supply := Some circulating,
               current_team_locked := team_locked,
               current_private_sale_locked := private_locked,
               data := data st @
                 [\<lparr> r_month = month,
                    r_total_supply = total,
                    r_circulating_supply = circulating,
                    r_unlocked_team = unlocked_team_this_month,
                    r_unlocked_private_sale = unlocked_private_sale_this_month,
                    r_minted_tokens = minted_tokens_this_month,
                    r_burned_tokens = burned_tokens_this_month,
                    r_current_team_locked = team_locked,
                    r_current_private_sale_locked = private_locked \<rparr>] \<rparr>))))))"

subsection \<open>The loop and the function\<close>

text \<open>The \<open>for\<close> loop over the months; an exception in one iteration ends the run.\<close>

fun run_months :: "parameters \<Rightarrow> sim_state \<Rightarrow> int list \<Rightarrow> error + sim_state" where
  "run_months p st [] = Inr st"
| "run_months p st (month # months) =
     (case month_step p st month of
        Inl e \<Rightarrow> Inl e
      | Inr st' \<Rightarrow> run_months p st' months)"

text \<open>
  \<open>range(1, simulation_duration_months + 1)\<close> is the list \<open>[1..d]\<close>, empty when \<open>d < 1\<close>;
  the sum raises when the duration is absent (line 65).
\<close>

definition run_simulation :: "parameters \<Rightarrow> error + month_record list" where
  "run_simulation p =
     and_then (init_state p) (\<lambda>st.
     and_then (num (simulation_duration_months p)) (\<lambda>d.
     and_then (run_months p st [1..d]) (\<lambda>st'.
     Inr (data st'))))"

section \<open>Configurations\<close>

text \<open>
  \<open>numeric_config\<close>: every entry the function uses is present. (The entry
  \<open>monthly_simulated_transactions\<close> has a default and the four remaining percentages are
  never used, so they are not asked for.)
\<close>

definition numeric_config :: "parameters \<Rightarrow> bool" where
  "numeric_config p \<longleftrightarrow>
     total_supply p \<noteq> None \<and> initial_circulating_supply p \<noteq> None \<and>
     simulation_duration_months p \<noteq> None \<and>
     team_allocation_pct p \<noteq> None \<and> private_sale_pct p \<noteq> None \<and>
     team_cliff_months p \<noteq> None \<and> team_vesting_linear_months p \<noteq> None \<and>
     private_sale_cliff_months p \<noteq> None \<and> private_sale_vesting_linear_months p \<noteq> None \<and>
     monthly_emission_tokens p \<noteq> None \<and> transaction_fee_burn_pct p \<noteq> None"

text \<open>The entries used before the loop (lines 44-62), and those first used inside it.\<close>

definition setup_entries_absent :: "parameters \<Rightarrow> bool" where
  "setup_entries_absent p \<longleftrightarrow>
     total_supply p = None \<or> team_allocation_pct p = None \<or> private_sale_pct p = None \<or>
     team_vesting_linear_months p = None \<or> private_sale_vesting_linear_months p = None"

definition step_ready :: "parameters \<Rightarrow> bool" where
  "step_ready p \<longleftrightarrow>
     team_cliff_months p \<noteq> None \<and> private_sale_cliff_months p \<noteq> None \<and>
     transaction_fee_burn_pct p \<noteq> None \<and> monthly_emission_tokens p \<noteq> None"

text \<open>
  \<open>valid_config\<close>: the documented domains of the configuration: supplies and month counts
  are non-negative, the duration is at least one month, percentages lie in \<open>[0,1]\<close>, emission
  and transaction volume are non-negative.
\<close>

definition in_unit :: "real option \<Rightarrow> bool" where
  "in_unit v = (case v of None \<Rightarrow> False | Some x \<Rightarrow> 0 \<le> x \<and> x \<le> 1)"

definition at_least :: "'a::linorder \<Rightarrow> 'a option \<Rightarrow> bool" where
  "at_least lo v = (case v of None \<Rightarrow> False | Some x \<Rightarrow> lo \<le> x)"

definition valid_config :: "parameters \<Rightarrow> bool" where
  "valid_config p \<longleftrightarrow>
     at_least 0 (total_supply p) \<and> at_least 0 (initial_circulating_supply p) \<and>
     at_least 1 (simulation_duration_months p) \<and>
     in_unit (team_allocation_pct p) \<and> in_unit (private_sale_pct p) \<and>
     in_unit (public_sale_pct p) \<and> in_unit (treasury_pct p) \<and>
     in_unit (community_rewards_pct p) \<and> in_unit (liquidity_mining_pct p) \<and>
     at_least 0 (team_cliff_months p) \<and> at_least 0 (team_vesting_linear_months p) \<and>
     at_least 0 (private_sale_cliff_months p) \<and>
     at_least 0 (private_sale_vesting_linear_months p) \<and>
     at_least 0 (monthly_emission_tokens p) \<and> in_unit (transaction_fee_burn_pct p) \<and>
     at_least 0 (monthly_simulated_transactions p)"

text \<open>The concrete scenario of the specification; the entries it leaves open are arguments.\<close>

definition scenario :: "real option \<Rightarrow> real option \<Rightarrow> real option \<Rightarrow> real option \<Rightarrow>
    int \<Rightarrow> int \<Rightarrow> parameters" where
  "scenario pub tre com liq pc pv =
     \<lparr> total_supply = Some 1000000000,
       initial_circulating_supply = Some 150000000,
       simulation_duration_months = Some 2,
       team_allocation_pct = Some (20 / 100),
       private_sale_pct = Some 0,
       public_sale_pct = pub,
       treasury_pct = tre,
       community_rewards_pct = com,
       liquidity_mining_pct = liq,
       team_cliff_months = Some 1,
       team_vesting_linear_months = Some 1,
       private_sale_cliff_months = Some pc,
       private_sale_vesting_linear_months = Some pv,
       monthly_emission_tokens = Some 5000000,
       transaction_fee_burn_pct = Some (1 / 1000),
       monthly_simulated_transactions = Some 500000000 \<rparr>"

text \<open>The dictionary \<open>sample_params\<close> of the module's example run (lines 112-133).\<close>

definition sample_params :: parameters where
  "sample_params =
     \<lparr> total_supply = Some 1000000000,
       initial_circulating_supply = Some 150000000,
       simulation_duration_months = Some 60,
       team_allocation_pct = Some (20 / 100),
       private_sale_pct = Some (15 / 100),
       public_sale_pct = Some (10 / 100),
       treasury_pct = Some (30 / 100),
       community_rewards_pct = Some (15 / 100),
       liquidity_mining_pct = Some (10 / 100),
       team_cliff_months = Some 12,
       team_vesting_linear_months = Some 36,
       private_sale_cliff_months = Some 6,
       private_sale_vesting_linear_months = Some 24,
       monthly_emission_tokens = Some 5000000,
       transaction_fee_burn_pct = Some (1 / 1000),
       monthly_simulated_transactions = Some 500000000 \<rparr>"

text \<open>Variants of it: a negative team allocation over two months with no cliff;\<close>

definition negative_team_params :: parameters where
  "negative_team_params =
     sample_params \<lparr> simulation_duration_months := Some 2,
                     team_allocation_pct := Some (- (20 / 100)),
                     team_cliff_months := Some 0,
                     team_vesting_linear_months := Some 1 \<rparr>"

text \<open>a cliff with no linear vesting, for both buckets;\<close>

definition cliff_only_params :: parameters where
  "cliff_only_params =
     sample_params \<lparr> team_vesting_linear_months := Some 0,
                     private_sale_vesting_linear_months := Some 0 \<rparr>"

text \<open>and dictionaries in which one key is absent.\<close>

definition no_transactions_params :: parameters where
  "no_transactions_params = sample_params \<lparr> monthly_simulated_transactions := None \<rparr>"

definition no_circulating_params :: parameters where
  "no_circulating_params = sample_params \<lparr> initial_circulating_supply := None \<rparr>"

definition no_supply_params :: parameters where
  "no_supply_params = sample_params \<lparr> total_supply := None \<rparr>"

section \<open>Notions used in the proofs\<close>


text \<open>
  The balance still locked after month \<open>m\<close> of a bucket of \<open>L\<close> tokens that unlocks \<open>L / v\<close>
  per month after the cliff, in closed form.
\<close>

definition vested_balance :: "real \<Rightarrow> int \<Rightarrow> int \<Rightarrow> int \<Rightarrow> real" where
  "vested_balance L cliff v m =
     (if m \<le> cliff then L
      else max 0 (L - real_of_int (m - cliff) * (L / real_of_int v)))"

section \<open>The setup and one iteration, case by case\<close>

lemma valid_numeric: "valid_config p \<Longrightarrow> numeric_config p"
  by (auto simp: valid_config_def numeric_config_def in_unit_def at_least_def
      split: option.splits)

lemma numeric_step_ready: "numeric_config p \<Longrightarrow> step_ready p"
  by (simp add: numeric_config_def step_ready_def)

lemma valid_sample_params: "valid_config sample_params"
  by (simp add: valid_config_def sample_params_def at_least_def in_unit_def)

lemma init_state_numeric:
  assumes "numeric_config p"
  shows "\<exists>ts tpct ppct tv pv.
     total_supply p = Some ts \<and> team_allocation_pct p = Some tpct \<and>
     private_sale_pct p = Some ppct \<and> team_vesting_linear_months p = Some tv \<and>
     private_sale_vesting_linear_months p = Some pv \<and>
     init_state p =
       Inr \<lparr> current_total_supply = ts,
             current_circulating_supply = initial_circulating_supply p,
             current_team_locked = ts * tpct,
             current_private_sale_locked = ts * ppct,
             team_monthly_unlock_amount = (if tv > 0 then ts * tpct / real_of_int tv else 0),
             private_sale_monthly_unlock_amount =
               (if pv > 0 then ts * ppct / real_of_int pv else 0),
             data = [] \<rparr>"
proof -
  from assms obtain ts tpct ppct tv pv where
    f: "total_supply p = Some ts" "team_allocation_pct p = Some tpct"
       "private_sale_pct p = Some ppct" "team_vesting_linear_months p = Some tv"
       "private_sale_vesting_linear_months p = Some pv"
    by (auto simp: numeric_config_def)
  then have "init_state p =
       Inr \<lparr> current_total_supply = ts,
             current_circulating_supply = initial_circulating_supply p,
             current_team_locked = ts * tpct,
             current_private_sale_locked = ts * ppct,
             team_monthly_unlock_amount = (if tv > 0 then ts * tpct / real_of_int tv else 0),
             private_sale_monthly_unlock_amount =
               (if pv > 0 then ts * ppct / real_of_int pv else 0),
             data = [] \<rparr>"
    by (simp add: init_state_def Let_def)
  with f show ?thesis by blast
qed

lemma init_state_fields:
  assumes "init_state p = Inr st0"
    and "total_supply p = Some ts" and "team_allocation_pct p = Some tpct"
    and "private_sale_pct p = Some ppct" and "team_vesting_linear_months p = Some tv"
    and "private_sale_vesting_linear_months p = Some pv"
  shows "current_total_supply st0 = ts"
    and "current_circulating_supply st0 = initial_circulating_supply p"
    and "current_team_locked st0 = ts * tpct"
    and "current_private_sale_locked st0 = ts * ppct"
    and "team_monthly_unlock_amount st0 = (if tv > 0 then ts * tpct / real_of_int tv else 0)"
    and "private_sale_monthly_unlock_amount st0 =
           (if pv > 0 then ts * ppct / real_of_int pv else 0)"
    and "data st0 = []"
proof -
  from assms have "st0 =
       \<lparr> current_total_supply = ts,
         current_circulating_supply = initial_circulating_supply p,
         current_team_locked = ts * tpct,
         current_private_sale_locked = ts * ppct,
         team_monthly_unlock_amount = (if tv > 0 then ts * tpct / real_of_int tv else 0),
         private_sale_monthly_unlock_amount =
           (if pv > 0 then ts * ppct / real_of_int pv else 0),
         data = [] \<rparr>"
    by (simp add: init_state_def Let_def)
  then show "current_total_supply st0 = ts"
    and "current_circulating_supply st0 = initial_circulating_supply p"
    and "current_team_locked st0 = ts * tpct"
    and "current_private_sale_locked st0 = ts * ppct"
    and "team_monthly_unlock_amount st0 = (if tv > 0 then ts * tpct / real_of_int tv else 0)"
    and "private_sale_monthly_unlock_amount st0 =
           (if pv > 0 then ts * ppct / real_of_int pv else 0)"
    and "data st0 = []"
    by simp_all
qed

lemma init_state_data: "init_state p = Inr st0 \<Longrightarrow> data st0 = []"
  by (cases "total_supply p"; cases "team_allocation_pct p"; cases "private_sale_pct p";
      cases "team_vesting_linear_months p"; cases "private_sale_vesting_linear_months p")
     (auto simp: init_state_def Let_def)

lemma init_state_absent:
  assumes "setup_entries_absent p"
  shows "init_state p = Inl TypeError"
  using assms unfolding setup_entries_absent_def
  by (cases "total_supply p"; cases "team_allocation_pct p"; cases "private_sale_pct p";
      cases "team_vesting_linear_months p"; cases "private_sale_vesting_linear_months p")
     (simp_all add: init_state_def Let_def)

lemma init_state_present:
  assumes "\<not> setup_entries_absent p"
  shows "\<exists>st0. init_state p = Inr st0 \<and>
           current_circulating_supply st0 = initial_circulating_supply p"
  using assms unfolding setup_entries_absent_def
  by (cases "total_supply p"; cases "team_allocation_pct p"; cases "private_sale_pct p";
      cases "team_vesting_linear_months p"; cases "private_sale_vesting_linear_months p")
     (simp_all add: init_state_def Let_def)

lemma init_state_default:
  "init_state (p\<lparr>monthly_simulated_transactions := v\<rparr>) = init_state p"
  by (simp add: init_state_def)

lemma month_stepD:
  assumes "month_step p s m = Inr s'"
  shows "\<exists>tc pc fee em c ut up.
     team_cliff_months p = Some tc \<and> private_sale_cliff_months p = Some pc \<and>
     transaction_fee_burn_pct p = Some fee \<and> monthly_emission_tokens p = Some em \<and>
     current_circulating_supply s = Some c \<and>
     ut = (if m > tc \<and> current_team_locked s > 0
           then min (team_monthly_unlock_amount s) (current_team_locked s) else 0) \<and>
     up = (if m > pc \<and> current_private_sale_locked s > 0
           then min (private_sale_monthly_unlock_amount s) (current_private_sale_locked s)
           else 0) \<and>
     s' = s \<lparr> current_total_supply :=
                 current_total_supply s + (em - get_monthly_simulated_transactions p * fee),
               current_circulating_supply :=
                 Some (c + (ut + up + em - get_monthly_simulated_transactions p * fee)),
               current_team_locked := current_team_locked s - ut,
               current_private_sale_locked := current_private_sale_locked s - up,
               data := data s @
                 [\<lparr> r_month = m,
                    r_total_supply =
                      current_total_supply s + (em - get_monthly_simulated_transactions p * fee),
                    r_circulating_supply =
                      c + (ut + up + em - get_monthly_simulated_transactions p * fee),
                    r_unlocked_team = ut,
                    r_unlocked_private_sale = up,
                    r_minted_tokens = em,
                    r_burned_tokens = get_monthly_simulated_transactions p * fee,
                    r_current_team_locked = current_team_locked s - ut,
                    r_current_private_sale_locked = current_private_sale_locked s - up \<rparr>] \<rparr>"
proof -
  from assms obtain tc where tc: "team_cliff_months p = Some tc"
    by (cases "team_cliff_months p") (simp_all add: month_step_def)
  from assms obtain pc where pc: "private_sale_cliff_months p = Some pc"
    by (cases "private_sale_cliff_months p") (simp_all add: month_step_def tc Let_def)
  from assms obtain fee where fee: "transaction_fee_burn_pct p = Some fee"
    by (cases "transaction_fee_burn_pct p") (simp_all add: month_step_def tc pc Let_def)
  from assms obtain em where em: "monthly_emission_tokens p = Some em"
    by (cases "monthly_emission_tokens p") (simp_all add: month_step_def tc pc fee Let_def)
  from assms obtain c where c: "current_circulating_supply s = Some c"
    by (cases "current_circulating_supply s") (simp_all add: month_step_def tc pc fee em Let_def)
  from assms show ?thesis
    by (simp add: month_step_def tc pc fee em c Let_def)
qed

lemma month_step_team:
  assumes "month_step p s m = Inr s'"
  shows "\<exists>tc r. team_cliff_months p = Some tc \<and> data s' = data s @ [r] \<and> r_month r = m \<and>
     r_unlocked_team r =
       (if m > tc \<and> current_team_locked s > 0
        then min (team_monthly_unlock_amount s) (current_team_locked s) else 0) \<and>
     r_current_team_locked r = current_team_locked s - r_unlocked_team r \<and>
     current_team_locked s' = r_current_team_locked r \<and>
     team_monthly_unlock_amount s' = team_monthly_unlock_amount s"
  using month_stepD [OF assms] by force

lemma month_step_private:
  assumes "month_step p s m = Inr s'"
  shows "\<exists>pc r. private_sale_cliff_months p = Some pc \<and> data s' = data s @ [r] \<and>
     r_month r = m \<and>
     r_unlocked_private_sale r =
       (if m > pc \<and> current_private_sale_locked s > 0
        then min (private_sale_monthly_unlock_amount s) (current_private_sale_locked s)
        else 0) \<and>
     r_current_private_sale_locked r =
       current_private_sale_locked s - r_unlocked_private_sale r \<and>
     current_private_sale_locked s' = r_current_private_sale_locked r \<and>
     private_sale_monthly_unlock_amount s' = private_sale_monthly_unlock_amount s"
  using month_stepD [OF assms] by force

lemma month_step_total:
  assumes "step_ready p" and "current_circulating_supply st \<noteq> None"
  shows "\<exists>st'. month_step p st m = Inr st' \<and> current_circulating_supply st' \<noteq> None"
  using assms by (auto simp: step_ready_def month_step_def Let_def)

lemma month_step_absent:
  assumes "team_cliff_months p = None \<or> private_sale_cliff_months p = None \<or>
     transaction_fee_burn_pct p = None \<or> monthly_emission_tokens p = None \<or>
     current_circulating_supply st = None"
  shows "month_step p st m = Inl TypeError"
proof (cases "team_cliff_months p")
  case None
  then show ?thesis by (simp add: month_step_def)
next
  case tc: (Some tc)
  show ?thesis
  proof (cases "private_sale_cliff_months p")
    case None
    with tc show ?thesis by (simp add: month_step_def Let_def)
  next
    case pc: (Some pc)
    show ?thesis
    proof (cases "transaction_fee_burn_pct p")
      case None
      with tc pc show ?thesis by (simp add: month_step_def Let_def)
    next
      case fee: (Some fee)
      show ?thesis
      proof (cases "monthly_emission_tokens p")
        case None
        with tc pc fee show ?thesis by (simp add: month_step_def Let_def)
      next
        case em: (Some em)
        with assms tc pc fee have "current_circulating_supply st = None" by simp
        with tc pc fee em show ?thesis by (simp add: month_step_def Let_def)
      qed
    qed
  qed
qed

lemma month_step_default:
  assumes "monthly_simulated_transactions p = None"
  shows "month_step p st m =
         month_step (p\<lparr>monthly_simulated_transactions := Some 1000000\<rparr>) st m"
  using assms by (simp add: month_step_def get_monthly_simulated_transactions_def)

section \<open>The loop\<close>

text \<open>With every entry present the loop cannot raise.\<close>

lemma run_months_total:
  assumes "step_ready p" and "current_circulating_supply st \<noteq> None"
  shows "\<exists>st'. run_months p st ms = Inr st'"
  using assms(2)
proof (induction ms arbitrary: st)
  case Nil
  show ?case by simp
next
  case (Cons m ms)
  from month_step_total [OF assms(1) Cons.prems, of m]
  obtain st1 where s: "month_step p st m = Inr st1" "current_circulating_supply st1 \<noteq> None"
    by blast
  from Cons.IH [OF s(2)] s(1) show ?case by simp
qed

lemma run_simulation_numeric:
  assumes "numeric_config p"
  shows "\<exists>st0 d st'. init_state p = Inr st0 \<and> simulation_duration_months p = Some d \<and>
     run_months p st0 [1..d] = Inr st' \<and> run_simulation p = Inr (data st')"
proof -
  from init_state_numeric [OF assms] obtain st0 where
    i: "init_state p = Inr st0"
      "current_circulating_supply st0 = initial_circulating_supply p"
    by force
  from assms obtain d where d: "simulation_duration_months p = Some d"
    by (auto simp: numeric_config_def)
  from assms i(2) have "current_circulating_supply st0 \<noteq> None"
    by (simp add: numeric_config_def)
  from run_months_total [OF numeric_step_ready [OF assms] this, of "[1..d]"]
  obtain st' where r: "run_months p st0 [1..d] = Inr st'" ..
  from i(1) d r have "run_simulation p = Inr (data st')"
    by (simp add: run_simulation_def)
  with i(1) d r show ?thesis by blast
qed

text \<open>Invariants: of the state alone, and of the state together with the month reached.\<close>

lemma run_months_invariant:
  assumes "run_months p st ms = Inr st'"
    and "I st"
    and "\<And>s m s'. I s \<Longrightarrow> month_step p s m = Inr s' \<Longrightarrow> I s'"
  shows "I st'"
  using assms(1,2)
proof (induction ms arbitrary: st)
  case Nil
  then show ?case by simp
next
  case (Cons m ms)
  from Cons.prems(1) obtain st1 where s: "month_step p st m = Inr st1"
    "run_months p st1 ms = Inr st'"
    by (auto split: sum.splits)
  from assms(3) [OF Cons.prems(2) s(1)] have "I st1" .
  from Cons.IH [OF s(2) this] show ?case .
qed

lemma run_upto_invariant:
  assumes "run_months p st [i..j] = Inr st'"
    and "I (i - 1) st"
    and "\<And>s m s'. i \<le> m \<Longrightarrow> m \<le> j \<Longrightarrow> I (m - 1) s \<Longrightarrow> month_step p s m = Inr s' \<Longrightarrow> I m s'"
    and "i \<le> j + 1"
  shows "I j st'"
  using assms
proof (induction i j arbitrary: st rule: upto.induct)
  case (1 i j)
  show ?case
  proof (cases "i \<le> j")
    case False
    with "1.prems"(4) have "j = i - 1" by simp
    with "1.prems"(1,2) show ?thesis by simp
  next
    case True
    then have u: "[i..j] = i # [i + 1..j]" by (rule upto_rec1)
    from "1.prems"(1) u obtain st1 where s: "month_step p st i = Inr st1"
      "run_months p st1 [i + 1..j] = Inr st'"
      by (auto split: sum.splits)
    have "I i st1" using "1.prems"(3) [OF _ True "1.prems"(2) s(1)] by simp
    then have "I (i + 1 - 1) st1" by simp
    moreover have "\<And>s m s'. i + 1 \<le> m \<Longrightarrow> m \<le> j \<Longrightarrow> I (m - 1) s \<Longrightarrow> month_step p s m = Inr s' \<Longrightarrow> I m s'"
      using "1.prems"(3) by simp
    ultimately show ?thesis
      using "1.IH" [OF True s(2)] True by simp
  qed
qed

lemma run_months_default:
  assumes "monthly_simulated_transactions p = None"
  shows "run_months p st ms =
         run_months (p\<lparr>monthly_simulated_transactions := Some 1000000\<rparr>) st ms"
  by (induction ms arbitrary: st)
     (simp_all add: month_step_default [OF assms] split: sum.splits)

lemma run_months_numbering:
  assumes "run_months p st [1..d] = Inr st'" and "data st = []" and "0 \<le> d"
  shows "map r_month (data st') = [1..d]"
proof -
  let ?I = "\<lambda>m s. map r_month (data s) = [1..m]"
  have "?I d st'"
  proof (rule run_upto_invariant [where I = ?I, OF assms(1)])
    show "?I (1 - 1) st" using assms(2) by simp
  next
    fix s m s'
    assume m: "1 \<le> m" and I: "?I (m - 1) s" and s: "month_step p s m = Inr s'"
    from month_stepD [OF s] obtain r where "data s' = data s @ [r]" "r_month r = m"
      by force
    with I upto_rec2 [OF m] show "?I m s'" by simp
  next
    show "1 \<le> d + 1" using assms(3) by simp
  qed
  then show ?thesis .
qed

lemma run_months_mint_burn:
  assumes "run_months p st ms = Inr st'"
    and "monthly_emission_tokens p = Some em" and "transaction_fee_burn_pct p = Some fee"
    and "data st = []"
  shows "\<forall>r\<in>set (data st'). r_minted_tokens r = em \<and>
           r_burned_tokens r = get_monthly_simulated_transactions p * fee"
proof -
  let ?I = "\<lambda>s. \<forall>r\<in>set (data s). r_minted_tokens r = em \<and>
           r_burned_tokens r = get_monthly_simulated_transactions p * fee"
  show ?thesis
  proof (rule run_months_invariant [where I = ?I, OF assms(1)])
    show "?I st" using assms(4) by simp
  next
    fix s m s'
    assume I: "?I s" and s: "month_step p s m = Inr s'"
    from month_stepD [OF s] assms(2,3) obtain r where
      "data s' = data s @ [r]" "r_minted_tokens r = em"
      "r_burned_tokens r = get_monthly_simulated_transactions p * fee"
      by force
    with I show "?I s'" by simp
  qed
qed



subsection \<open>The vesting buckets\<close>

lemma team_no_unlock:
  assumes "run_months p st ms = Inr st'" and "data st = []"
    and "current_team_locked st = L"
    and "team_monthly_unlock_amount st = 0 \<or> L \<le> 0"
  shows "\<forall>r\<in>set (data st'). r_unlocked_team r = 0 \<and> r_current_team_locked r = L"
proof -
  let ?I = "\<lambda>s. team_monthly_unlock_amount s = team_monthly_unlock_amount st \<and>
     current_team_locked s = L \<and>
     (\<forall>r\<in>set (data s). r_unlocked_team r = 0 \<and> r_current_team_locked r = L)"
  have "?I st'"
  proof (rule run_months_invariant [where I = ?I, OF assms(1)])
    show "?I st" using assms(2,3) by simp
  next
    fix s m s'
    assume I: "?I s" and s: "month_step p s m = Inr s'"
    from month_step_team [OF s] obtain tc r where
      r: "data s' = data s @ [r]"
         "r_unlocked_team r =
           (if m > tc \<and> current_team_locked s > 0
            then min (team_monthly_unlock_amount s) (current_team_locked s) else 0)"
         "r_current_team_locked r = current_team_locked s - r_unlocked_team r"
         "current_team_locked s' = r_current_team_locked r"
         "team_monthly_unlock_amount s' = team_monthly_unlock_amount s"
      by blast
    from I assms(4) r(2) have u: "r_unlocked_team r = 0" by auto
    with I r show "?I s'" by simp
  qed
  then show ?thesis by simp
qed

lemma private_no_unlock:
  assumes "run_months p st ms = Inr st'" and "data st = []"
    and "current_private_sale_locked st = L"
    and "private_sale_monthly_unlock_amount st = 0 \<or> L \<le> 0"
  shows "\<forall>r\<in>set (data st').
           r_unlocked_private_sale r = 0 \<and> r_current_private_sale_locked r = L"
proof -
  let ?I = "\<lambda>s.
     private_sale_monthly_unlock_amount s = private_sale_monthly_unlock_amount st \<and>
     current_private_sale_locked s = L \<and>
     (\<forall>r\<in>set (data s).
        r_unlocked_private_sale r = 0 \<and> r_current_private_sale_locked r = L)"
  have "?I st'"
  proof (rule run_months_invariant [where I = ?I, OF assms(1)])
    show "?I st" using assms(2,3) by simp
  next
    fix s m s'
    assume I: "?I s" and s: "month_step p s m = Inr s'"
    from month_step_private [OF s] obtain pc r where
      r: "data s' = data s @ [r]"
         "r_unlocked_private_sale r =
           (if m > pc \<and> current_private_sale_locked s > 0
            then min (private_sale_monthly_unlock_amount s) (current_private_sale_locked s)
            else 0)"
         "r_current_private_sale_locked r =
            current_private_sale_locked s - r_unlocked_private_sale r"
         "current_private_sale_locked s' = r_current_private_sale_locked r"
         "private_sale_monthly_unlock_amount s' = private_sale_monthly_unlock_amount s"
      by blast
    from I assms(4) r(2) have u: "r_unlocked_private_sale r = 0" by auto
    with I r show "?I s'" by simp
  qed
  then show ?thesis by simp
qed

lemma team_locked_decreases:
  assumes "run_months p st ms = Inr st'" and "data st = []"
    and "current_team_locked st = L" and "0 \<le> L"
    and "0 \<le> team_monthly_unlock_amount st"
  shows "(\<forall>r\<in>set (data st'). 0 \<le> r_current_team_locked r \<and> r_current_team_locked r \<le> L) \<and>
         sorted_wrt (\<ge>) (map r_current_team_locked (data st'))"
proof -
  let ?I = "\<lambda>s. team_monthly_unlock_amount s = team_monthly_unlock_amount st \<and>
     0 \<le> current_team_locked s \<and> current_team_locked s \<le> L \<and>
     (\<forall>r\<in>set (data s). current_team_locked s \<le> r_current_team_locked r \<and>
                          r_current_team_locked r \<le> L) \<and>
     sorted_wrt (\<ge>) (map r_current_team_locked (data s))"
  have "?I st'"
  proof (rule run_months_invariant [where I = ?I, OF assms(1)])
    show "?I st" using assms(2-4) by simp
  next
    fix s m s'
    assume I: "?I s" and s: "month_step p s m = Inr s'"
    from month_step_team [OF s] obtain tc r where
      r: "data s' = data s @ [r]"
         "r_unlocked_team r =
           (if m > tc \<and> current_team_locked s > 0
            then min (team_monthly_unlock_amount s) (current_team_locked s) else 0)"
         "r_current_team_locked r = current_team_locked s - r_unlocked_team r"
         "current_team_locked s' = r_current_team_locked r"
         "team_monthly_unlock_amount s' = team_monthly_unlock_amount s"
      by blast
    from I assms(5) r(2) have u: "0 \<le> r_unlocked_team r"
      "r_unlocked_team r \<le> current_team_locked s"
      by auto
    with r(3) have b: "r_current_team_locked r \<le> current_team_locked s"
      "0 \<le> r_current_team_locked r"
      by simp_all
    with I have "\<forall>x\<in>set (data s). r_current_team_locked r \<le> r_current_team_locked x"
      by fastforce
    with I r b show "?I s'" by (simp add: sorted_wrt_append)
  qed
  with order_trans show ?thesis by blast
qed

lemma private_locked_decreases:
  assumes "run_months p st ms = Inr st'" and "data st = []"
    and "current_private_sale_locked st = L" and "0 \<le> L"
    and "0 \<le> private_sale_monthly_unlock_amount st"
  shows "(\<forall>r\<in>set (data st'). 0 \<le> r_current_private_sale_locked r \<and>
                                r_current_private_sale_locked r \<le> L) \<and>
         sorted_wrt (\<ge>) (map r_current_private_sale_locked (data st'))"
proof -
  let ?I = "\<lambda>s.
     private_sale_monthly_unlock_amount s = private_sale_monthly_unlock_amount st \<and>
     0 \<le> current_private_sale_locked s \<and> current_private_sale_locked s \<le> L \<and>
     (\<forall>r\<in>set (data s). current_private_sale_locked s \<le> r_current_private_sale_locked r \<and>
                          r_current_private_sale_locked r \<le> L) \<and>
     sorted_wrt (\<ge>) (map r_current_private_sale_locked (data s))"
  have "?I st'"
  proof (rule run_months_invariant [where I = ?I, OF assms(1)])
    show "?I st" using assms(2-4) by simp
  next
    fix s m s'
    assume I: "?I s" and s: "month_step p s m = Inr s'"
    from month_step_private [OF s] obtain pc r where
      r: "data s' = data s @ [r]"
         "r_unlocked_private_sale r =
           (if m > pc \<and> current_private_sale_locked s > 0
            then min (private_sale_monthly_unlock_amount s) (current_private_sale_locked s)
            else 0)"
         "r_current_private_sale_locked r =
            current_private_sale_locked s - r_unlocked_private_sale r"
         "current_private_sale_locked s' = r_current_private_sale_locked r"
         "private_sale_monthly_unlock_amount s' = private_sale_monthly_unlock_amount s"
      by blast
    from I assms(5) r(2) have u: "0 \<le> r_unlocked_private_sale r"
      "r_unlocked_private_sale r \<le> current_private_sale_locked s"
      by auto
    with r(3) have b: "r_current_private_sale_locked r \<le> current_private_sale_locked s"
      "0 \<le> r_current_private_sale_locked r"
      by simp_all
    with I have "\<forall>x\<in>set (data s).
        r_current_private_sale_locked r \<le> r_current_private_sale_locked x"
      by fastforce
    with I r b show "?I s'" by (simp add: sorted_wrt_append)
  qed
  with order_trans show ?thesis by blast
qed

lemma vested_balance_step:
  assumes "0 \<le> L" and "0 < v"
  shows "vested_balance L cliff v (m - 1)
           - (if m > cliff \<and> vested_balance L cliff v (m - 1) > 0
              then min (L / real_of_int v) (vested_balance L cliff v (m - 1)) else 0)
         = vested_balance L cliff v m"
proof -
  define u where "u = L / real_of_int v"
  have u: "0 \<le> u" using assms by (simp add: u_def)
  consider "m \<le> cliff" | "m = cliff + 1" | "cliff + 1 < m" by linarith
  then show ?thesis
  proof cases
    case 1
    then show ?thesis by (simp add: vested_balance_def)
  next
    case 2
    then have "vested_balance L cliff v (m - 1) = L" "vested_balance L cliff v m = max 0 (L - u)"
      by (simp_all add: vested_balance_def u_def)
    with 2 u assms(1) show ?thesis by (auto simp: u_def [symmetric] min_def max_def)
  next
    case 3
    have k: "real_of_int (m - cliff) = real_of_int (m - 1 - cliff) + 1" by simp
    from 3 have a: "vested_balance L cliff v (m - 1) = max 0 (L - real_of_int (m - 1 - cliff) * u)"
      and b: "vested_balance L cliff v m = max 0 (L - (real_of_int (m - 1 - cliff) + 1) * u)"
      unfolding k [symmetric] by (simp_all add: vested_balance_def u_def)
    define w where "w = L - real_of_int (m - 1 - cliff) * u"
    have c: "L - (real_of_int (m - 1 - cliff) + 1) * u = w - u"
      by (simp add: w_def algebra_simps)
    from 3 u show ?thesis
      unfolding a b c u_def [symmetric] w_def [symmetric]
      by (auto simp: min_def max_def)
  qed
qed

lemma vested_balance_end:
  assumes "0 \<le> L" and "0 < v" and "cliff + v \<le> m"
  shows "vested_balance L cliff v m = 0"
proof -
  from assms(2,3) have "real_of_int v \<le> real_of_int (m - cliff)" by simp
  with assms(1) have "real_of_int v * (L / real_of_int v) \<le> real_of_int (m - cliff) * (L / real_of_int v)"
    by (intro mult_right_mono) (simp_all add: assms(2) less_imp_le)
  with assms(2) have "L \<le> real_of_int (m - cliff) * (L / real_of_int v)" by simp
  with assms(2,3) show ?thesis by (simp add: vested_balance_def)
qed

lemma team_closed_form:
  assumes "run_months p st [1..d] = Inr st'" and "data st = []" and "0 \<le> d"
    and "team_cliff_months p = Some tc" and "0 \<le> tc"
    and "current_team_locked st = L" and "0 \<le> L" and "0 < tv"
    and "team_monthly_unlock_amount st = L / real_of_int tv"
  shows "\<forall>r\<in>set (data st'). r_current_team_locked r = vested_balance L tc tv (r_month r)"
proof -
  let ?I = "\<lambda>m s. team_monthly_unlock_amount s = L / real_of_int tv \<and>
     current_team_locked s = vested_balance L tc tv m \<and>
     (\<forall>r\<in>set (data s). r_current_team_locked r = vested_balance L tc tv (r_month r))"
  have "?I d st'"
  proof (rule run_upto_invariant [where I = ?I, OF assms(1)])
    show "?I (1 - 1) st" using assms(2,5,6,9) by (simp add: vested_balance_def)
  next
    fix s m s'
    assume I: "?I (m - 1) s" and s: "month_step p s m = Inr s'"
    from month_step_team [OF s] assms(4) obtain r where
      r: "data s' = data s @ [r]" "r_month r = m"
         "r_unlocked_team r =
           (if m > tc \<and> current_team_locked s > 0
            then min (team_monthly_unlock_amount s) (current_team_locked s) else 0)"
         "r_current_team_locked r = current_team_locked s - r_unlocked_team r"
         "current_team_locked s' = r_current_team_locked r"
         "team_monthly_unlock_amount s' = team_monthly_unlock_amount s"
      by force
    from I have a: "team_monthly_unlock_amount s = L / real_of_int tv"
      "current_team_locked s = vested_balance L tc tv (m - 1)"
      by simp_all
    have "r_current_team_locked r = vested_balance L tc tv m"
      unfolding r(4) r(3) a by (rule vested_balance_step [OF assms(7,8)])
    with I r show "?I m s'" by simp
  next
    show "1 \<le> d + 1" using assms(3) by simp
  qed
  then show ?thesis by simp
qed

lemma private_closed_form:
  assumes "run_months p st [1..d] = Inr st'" and "data st = []" and "0 \<le> d"
    and "private_sale_cliff_months p = Some pc" and "0 \<le> pc"
    and "current_private_sale_locked st = L" and "0 \<le> L" and "0 < pv"
    and "private_sale_monthly_unlock_amount st = L / real_of_int pv"
  shows "\<forall>r\<in>set (data st').
           r_current_private_sale_locked r = vested_balance L pc pv (r_month r)"
proof -
  let ?I = "\<lambda>m s. private_sale_monthly_unlock_amount s = L / real_of_int pv \<and>
     current_private_sale_locked s = vested_balance L pc pv m \<and>
     (\<forall>r\<in>set (data s).
        r_current_private_sale_locked r = vested_balance L pc pv (r_month r))"
  have "?I d st'"
  proof (rule run_upto_invariant [where I = ?I, OF assms(1)])
    show "?I (1 - 1) st" using assms(2,5,6,9) by (simp add: vested_balance_def)
  next
    fix s m s'
    assume I: "?I (m - 1) s" and s: "month_step p s m = Inr s'"
    from month_step_private [OF s] assms(4) obtain r where
      r: "data s' = data s @ [r]" "r_month r = m"
         "r_unlocked_private_sale r =
           (if m > pc \<and> current_private_sale_locked s > 0
            then min (private_sale_monthly_unlock_amount s) (current_private_sale_locked s)
            else 0)"
         "r_current_private_sale_locked r =
            current_private_sale_locked s - r_unlocked_private_sale r"
         "current_private_sale_locked s' = r_current_private_sale_locked r"
         "private_sale_monthly_unlock_amount s' = private_sale_monthly_unlock_amount s"
      by force
    from I have a: "private_sale_monthly_unlock_amount s = L / real_of_int pv"
      "current_private_sale_locked s = vested_balance L pc pv (m - 1)"
      by simp_all
    have "r_current_private_sale_locked r = vested_balance L pc pv m"
      unfolding r(4) r(3) a by (rule vested_balance_step [OF assms(7,8)])
    with I r show "?I m s'" by simp
  next
    show "1 \<le> d + 1" using assms(3) by simp
  qed
  then show ?thesis by simp
qed

section \<open>Properties\<close>

subsection \<open>The concrete scenario\<close>

text \<open>
  C1. In the concrete scenario (total supply 1,000,000,000, initial circulating supply
  150,000,000, two months, team allocation 20 percent with a one-month cliff and one month of
  linear vesting, no private sale, emission 5,000,000, burn 0.1 percent of a volume of
  500,000,000) the run returns exactly two records: month 1 with nothing unlocked, total
  supply 1,004,500,000 and circulating supply 154,500,000; month 2 with 200,000,000 unlocked
  for the team, no team balance left locked, total supply 1,009,000,000 and circulating
  supply 359,000,000. The entries the scenario leaves open do not matter.
\<close>

theorem concrete_scenario:
  "run_simulation (scenario pub tre com liq pc pv) =
     Inr [\<lparr> r_month = 1, r_total_supply = 1004500000, r_circulating_supply = 154500000,
             r_unlocked_team = 0, r_unlocked_private_sale = 0,
             r_minted_tokens = 5000000, r_burned_tokens = 500000,
             r_current_team_locked = 200000000, r_current_private_sale_locked = 0 \<rparr>,
          \<lparr> r_month = 2, r_total_supply = 1009000000, r_circulating_supply = 359000000,
             r_unlocked_team = 200000000, r_unlocked_private_sale = 0,
             r_minted_tokens = 5000000, r_burned_tokens = 500000,
             r_current_team_locked = 0, r_current_private_sale_locked = 0 \<rparr>]"
  by (simp add: run_simulation_def init_state_def month_step_def scenario_def
      get_monthly_simulated_transactions_def Let_def upto_rec1)

subsection \<open>Supply accumulation\<close>



subsection \<open>One record per month\<close>

text \<open>
  C3. For every valid configuration (the duration is at least one month) the run returns
  exactly as many records as the duration has months, and their month fields are
  1, 2, ..., duration in this order, with no gap and no repetition.
\<close>

theorem month_index:
  assumes "valid_config p"
  shows "\<exists>d recs. simulation_duration_months p = Some d \<and> run_simulation p = Inr recs \<and>
           int (length recs) = d \<and> map r_month recs = [1..d]"
proof -
  from run_simulation_numeric [OF valid_numeric [OF assms]] obtain st0 d st' where
    r: "init_state p = Inr st0" "simulation_duration_months p = Some d"
       "run_months p st0 [1..d] = Inr st'" "run_simulation p = Inr (data st')"
    by blast
  from assms r(2) have d: "1 \<le> d" by (simp add: valid_config_def at_least_def)
  then have m: "map r_month (data st') = [1..d]"
    using run_months_numbering [OF r(3) init_state_data [OF r(1)]] by simp
  then have "length (data st') = length [1..d]" by (metis length_map)
  with d have "int (length (data st')) = d" by simp
  with r(2,4) m show ?thesis by blast
qed

theorem month_index_witness:
  "valid_config sample_params \<and>
   (\<exists>recs. run_simulation sample_params = Inr recs \<and> length recs = 60 \<and>
      map r_month recs = [1..60])"
  using month_index [OF valid_sample_params] valid_sample_params
  by (simp add: sample_params_def)

subsection \<open>Vesting runs to completion\<close>

text \<open>
  C4. For every valid configuration: if the team bucket vests linearly over \<open>tv > 0\<close> months
  after a cliff of \<open>tc\<close> months and the run lasts at least \<open>tc + tv\<close> months, then there is a
  record for month \<open>tc + tv\<close>, and in that record and in every later one the locked team
  balance is exactly 0. The same holds for the private-sale bucket with its own cliff and
  vesting period.
\<close>

theorem full_vesting_convergence:
  assumes "valid_config p"
  shows "\<exists>recs d tc tv pc pv. run_simulation p = Inr recs \<and>
      simulation_duration_months p = Some d \<and>
      team_cliff_months p = Some tc \<and> team_vesting_linear_months p = Some tv \<and>
      private_sale_cliff_months p = Some pc \<and>
      private_sale_vesting_linear_months p = Some pv \<and>
      (0 < tv \<and> tc + tv \<le> d \<longrightarrow>
         (\<exists>r\<in>set recs. r_month r = tc + tv) \<and>
         (\<forall>r\<in>set recs. tc + tv \<le> r_month r \<longrightarrow> r_current_team_locked r = 0)) \<and>
      (0 < pv \<and> pc + pv \<le> d \<longrightarrow>
         (\<exists>r\<in>set recs. r_month r = pc + pv) \<and>
         (\<forall>r\<in>set recs. pc + pv \<le> r_month r \<longrightarrow> r_current_private_sale_locked r = 0))"
proof -
  have n: "numeric_config p" using assms by (rule valid_numeric)
  from run_simulation_numeric [OF n] obtain st0 d st' where
    r: "init_state p = Inr st0" "simulation_duration_months p = Some d"
       "run_months p st0 [1..d] = Inr st'" "run_simulation p = Inr (data st')"
    by blast
  from n obtain ts tpct ppct tv pv tc pc where
    f: "total_supply p = Some ts" "team_allocation_pct p = Some tpct"
       "private_sale_pct p = Some ppct" "team_vesting_linear_months p = Some tv"
       "private_sale_vesting_linear_months p = Some pv"
    and c: "team_cliff_months p = Some tc" "private_sale_cliff_months p = Some pc"
    by (auto simp: numeric_config_def)
  note i = init_state_fields [OF r(1) f]
  from assms f c r(2) have dom: "0 \<le> ts" "0 \<le> tpct" "0 \<le> ppct" "0 \<le> tc" "0 \<le> pc" "1 \<le> d"
    by (simp_all add: valid_config_def at_least_def in_unit_def)
  then have L: "0 \<le> ts * tpct" "0 \<le> ts * ppct" and d: "0 \<le> d" by simp_all
  have months: "map r_month (data st') = [1..d]"
    using run_months_numbering [OF r(3) i(7) d] .
  have present: "\<exists>r\<in>set (data st'). r_month r = k" if "1 \<le> k" "k \<le> d" for k
  proof -
    from that have "k \<in> set [1..d]" by simp
    with months have "k \<in> r_month ` set (data st')" by (metis set_map)
    then show ?thesis by auto
  qed
  have t: "(\<exists>r\<in>set (data st'). r_month r = tc + tv) \<and>
         (\<forall>r\<in>set (data st'). tc + tv \<le> r_month r \<longrightarrow> r_current_team_locked r = 0)"
    if "0 < tv" "tc + tv \<le> d"
  proof -
    from that(1) i(5) have "team_monthly_unlock_amount st0 = ts * tpct / real_of_int tv"
      by simp
    from team_closed_form [OF r(3) i(7) d c(1) dom(4) i(3) L(1) that(1) this]
    have "\<forall>r\<in>set (data st').
        r_current_team_locked r = vested_balance (ts * tpct) tc tv (r_month r)" .
    then have "\<forall>r\<in>set (data st'). tc + tv \<le> r_month r \<longrightarrow> r_current_team_locked r = 0"
      using vested_balance_end [OF L(1) that(1)] by simp
    moreover have "\<exists>r\<in>set (data st'). r_month r = tc + tv"
      using that dom(4) by (intro present) simp_all
    ultimately show ?thesis by simp
  qed
  have v: "(\<exists>r\<in>set (data st'). r_month r = pc + pv) \<and>
         (\<forall>r\<in>set (data st'). pc + pv \<le> r_month r \<longrightarrow> r_current_private_sale_locked r = 0)"
    if "0 < pv" "pc + pv \<le> d"
  proof -
    from that(1) i(6) have
      "private_sale_monthly_unlock_amount st0 = ts * ppct / real_of_int pv"
      by simp
    from private_closed_form [OF r(3) i(7) d c(2) dom(5) i(4) L(2) that(1) this]
    have "\<forall>r\<in>set (data st').
        r_current_private_sale_locked r = vested_balance (ts * ppct) pc pv (r_month r)" .
    then have "\<forall>r\<in>set (data st').
        pc + pv \<le> r_month r \<longrightarrow> r_current_private_sale_locked r = 0"
      using vested_balance_end [OF L(2) that(1)] by simp
    moreover have "\<exists>r\<in>set (data st'). r_month r = pc + pv"
      using that dom(5) by (intro present) simp_all
    ultimately show ?thesis by simp
  qed
  from r(2,4) f(4,5) c t v show ?thesis by simp
qed

theorem full_vesting_convergence_witness:
  "valid_config sample_params \<and>
   (\<exists>recs. run_simulation sample_params = Inr recs \<and>
      (\<exists>r\<in>set recs. r_month r = 48) \<and>
      (\<forall>r\<in>set recs. 48 \<le> r_month r \<longrightarrow> r_current_team_locked r = 0) \<and>
      (\<exists>r\<in>set recs. r_month r = 30) \<and>
      (\<forall>r\<in>set recs. 30 \<le> r_month r \<longrightarrow> r_current_private_sale_locked r = 0))"
  using full_vesting_convergence [OF valid_sample_params] valid_sample_params
  by (simp add: sample_params_def)

subsection \<open>Locked balances only fall\<close>

text \<open>
  C5. For every configuration within the documented domains, the locked team balance and
  the locked private-sale balance are never negative in any record, and neither is larger in
  a later record than in an earlier one.
\<close>

theorem locked_balances_monotone:
  assumes "valid_config p"
  shows "\<exists>recs. run_simulation p = Inr recs \<and>
      (\<forall>r\<in>set recs. 0 \<le> r_current_team_locked r \<and> 0 \<le> r_current_private_sale_locked r) \<and>
      (\<forall>i j. i < j \<and> j < length recs \<longrightarrow>
         r_current_team_locked (recs ! j) \<le> r_current_team_locked (recs ! i) \<and>
         r_current_private_sale_locked (recs ! j) \<le> r_current_private_sale_locked (recs ! i))"
proof -
  have n: "numeric_config p" using assms by (rule valid_numeric)
  from run_simulation_numeric [OF n] obtain st0 d st' where
    r: "init_state p = Inr st0" "run_months p st0 [1..d] = Inr st'"
       "run_simulation p = Inr (data st')"
    by blast
  from n obtain ts tpct ppct tv pv where
    f: "total_supply p = Some ts" "team_allocation_pct p = Some tpct"
       "private_sale_pct p = Some ppct" "team_vesting_linear_months p = Some tv"
       "private_sale_vesting_linear_months p = Some pv"
    by (auto simp: numeric_config_def)
  note i = init_state_fields [OF r(1) f]
  from assms f have dom: "0 \<le> ts" "0 \<le> tpct" "0 \<le> ppct"
    by (simp_all add: valid_config_def at_least_def in_unit_def)
  then have L: "0 \<le> ts * tpct" "0 \<le> ts * ppct" by simp_all
  with i(5,6) have u: "0 \<le> team_monthly_unlock_amount st0"
    "0 \<le> private_sale_monthly_unlock_amount st0"
    by simp_all
  from team_locked_decreases [OF r(2) i(7) i(3) L(1) u(1)]
  have t: "\<forall>r\<in>set (data st'). 0 \<le> r_current_team_locked r"
    "sorted_wrt (\<ge>) (map r_current_team_locked (data st'))"
    by simp_all
  from private_locked_decreases [OF r(2) i(7) i(4) L(2) u(2)]
  have v: "\<forall>r\<in>set (data st'). 0 \<le> r_current_private_sale_locked r"
    "sorted_wrt (\<ge>) (map r_current_private_sale_locked (data st'))"
    by simp_all
  from t(2) v(2) have "\<forall>i j. i < j \<and> j < length (data st') \<longrightarrow>
         r_current_team_locked (data st' ! j) \<le> r_current_team_locked (data st' ! i) \<and>
         r_current_private_sale_locked (data st' ! j)
           \<le> r_current_private_sale_locked (data st' ! i)"
    by (simp add: sorted_wrt_iff_nth_less)
  with r(3) t(1) v(1) show ?thesis by simp
qed

theorem locked_balances_monotone_witness:
  "valid_config sample_params \<and>
   (\<exists>recs. run_simulation sample_params = Inr recs \<and>
      (\<forall>r\<in>set recs. 0 \<le> r_current_team_locked r \<and> 0 \<le> r_current_private_sale_locked r) \<and>
      (\<forall>i j. i < j \<and> j < length recs \<longrightarrow>
         r_current_team_locked (recs ! j) \<le> r_current_team_locked (recs ! i) \<and>
         r_current_private_sale_locked (recs ! j) \<le> r_current_private_sale_locked (recs ! i)))"
  using locked_balances_monotone [OF valid_sample_params] valid_sample_params
  by simp

subsection \<open>Constant mint and burn\<close>

text \<open>
  C6. For every valid configuration the run succeeds with one record for each of the months
  1, ..., duration (at least one), and every one of these records has the configured
  monthly emission as its minted tokens and the configured transaction volume times the
  burn percentage as its burned tokens.
\<close>

theorem constant_mint_burn:
  assumes "valid_config p"
  shows "\<exists>recs em fee tx d. run_simulation p = Inr recs \<and>
           monthly_emission_tokens p = Some em \<and> transaction_fee_burn_pct p = Some fee \<and>
           monthly_simulated_transactions p = Some tx \<and>
           simulation_duration_months p = Some d \<and> 1 \<le> d \<and>
           int (length recs) = d \<and> map r_month recs = [1..d] \<and>
           (\<forall>r\<in>set recs. r_minted_tokens r = em \<and> r_burned_tokens r = tx * fee)"
proof -
  from run_simulation_numeric [OF valid_numeric [OF assms]] obtain st0 d st' where
    r: "init_state p = Inr st0" "simulation_duration_months p = Some d"
       "run_months p st0 [1..d] = Inr st'" "run_simulation p = Inr (data st')"
    by blast
  from assms obtain em fee tx where
    f: "monthly_emission_tokens p = Some em" "transaction_fee_burn_pct p = Some fee"
       "monthly_simulated_transactions p = Some tx"
    by (auto simp: valid_config_def at_least_def in_unit_def split: option.splits)
  from assms r(2) have d: "1 \<le> d" by (simp add: valid_config_def at_least_def)
  then have m: "map r_month (data st') = [1..d]"
    using run_months_numbering [OF r(3) init_state_data [OF r(1)]] by simp
  then have "length (data st') = length [1..d]" by (metis length_map)
  with d have l: "int (length (data st')) = d" by simp
  from f(3) have "get_monthly_simulated_transactions p = tx"
    by (simp add: get_monthly_simulated_transactions_def)
  with run_months_mint_burn [OF r(3) f(1,2) init_state_data [OF r(1)]]
  have "\<forall>r\<in>set (data st'). r_minted_tokens r = em \<and> r_burned_tokens r = tx * fee"
    by simp
  with r(2,4) f d l m show ?thesis by blast
qed

theorem constant_mint_burn_witness:
  "valid_config sample_params \<and>
   (\<exists>recs. run_simulation sample_params = Inr recs \<and>
      length recs = 60 \<and> map r_month recs = [1..60] \<and>
      (\<forall>r\<in>set recs. r_minted_tokens r = 5000000 \<and> r_burned_tokens r = 500000))"
proof -
  have v: "valid_config sample_params" by (rule valid_sample_params)
  from constant_mint_burn [OF v] obtain recs em fee tx d where
    r: "run_simulation sample_params = Inr recs"
       "monthly_emission_tokens sample_params = Some em"
       "transaction_fee_burn_pct sample_params = Some fee"
       "monthly_simulated_transactions sample_params = Some tx"
       "simulation_duration_months sample_params = Some d"
       "int (length recs) = d" "map r_month recs = [1..d]"
       "\<forall>r\<in>set recs. r_minted_tokens r = em \<and> r_burned_tokens r = tx * fee"
    by blast
  from r(2-5) have e: "em = 5000000" "tx * fee = 500000" "d = 60"
    by (auto simp: sample_params_def)
  from r(6) e(3) have "length recs = 60" by simp
  with r(1,7,8) e v show ?thesis by auto
qed

subsection \<open>Configurations outside the documented domains\<close>

text \<open>
  C7, as stated (the locked balances of every record lie in \<open>[0, \<infinity>)\<close>, negative balances
  being clamped to 0), fails: with a team allocation of minus 20 percent the initial locked
  team balance is -200,000,000, the test \<open>current_team_locked > 0\<close> of line 72 is never met,
  and both records carry the balance -200,000,000.
\<close>

theorem negative_locked_counterexample:
  "run_simulation negative_team_params =
     Inr [\<lparr> r_month = 1, r_total_supply = 1004500000, r_circulating_supply = 154500000,
             r_unlocked_team = 0, r_unlocked_private_sale = 0,
             r_minted_tokens = 5000000, r_burned_tokens = 500000,
             r_current_team_locked = - 200000000,
             r_current_private_sale_locked = 150000000 \<rparr>,
          \<lparr> r_month = 2, r_total_supply = 1009000000, r_circulating_supply = 159000000,
             r_unlocked_team = 0, r_unlocked_private_sale = 0,
             r_minted_tokens = 5000000, r_burned_tokens = 500000,
             r_current_team_locked = - 200000000,
             r_current_private_sale_locked = 150000000 \<rparr>]"
  by (simp add: run_simulation_def init_state_def month_step_def negative_team_params_def
      sample_params_def get_monthly_simulated_transactions_def Let_def upto_rec1)

text \<open>
  C7, amended. For every configuration whose entries are all present, the run completes. A
  locked balance that starts non-negative (total supply times the allocation percentage) is
  non-negative in every record; one that starts negative is not clamped but is carried
  unchanged into every record.
\<close>

theorem locked_sign_preserved:
  assumes "numeric_config p"
  shows "\<exists>recs ts tpct ppct. run_simulation p = Inr recs \<and> total_supply p = Some ts \<and>
      team_allocation_pct p = Some tpct \<and> private_sale_pct p = Some ppct \<and>
      (\<forall>r\<in>set recs.
         (0 \<le> ts * tpct \<longrightarrow> 0 \<le> r_current_team_locked r) \<and>
         (ts * tpct < 0 \<longrightarrow> r_current_team_locked r = ts * tpct) \<and>
         (0 \<le> ts * ppct \<longrightarrow> 0 \<le> r_current_private_sale_locked r) \<and>
         (ts * ppct < 0 \<longrightarrow> r_current_private_sale_locked r = ts * ppct))"
proof -
  from run_simulation_numeric [OF assms] obtain st0 d st' where
    r: "init_state p = Inr st0" "run_months p st0 [1..d] = Inr st'"
       "run_simulation p = Inr (data st')"
    by blast
  from assms obtain ts tpct ppct tv pv where
    f: "total_supply p = Some ts" "team_allocation_pct p = Some tpct"
       "private_sale_pct p = Some ppct" "team_vesting_linear_months p = Some tv"
       "private_sale_vesting_linear_months p = Some pv"
    by (auto simp: numeric_config_def)
  note i = init_state_fields [OF r(1) f]
  have t1: "\<forall>r\<in>set (data st'). 0 \<le> r_current_team_locked r" if "0 \<le> ts * tpct"
  proof -
    from that i(5) have "0 \<le> team_monthly_unlock_amount st0" by simp
    from team_locked_decreases [OF r(2) i(7) i(3) that this] show ?thesis by simp
  qed
  have t2: "\<forall>r\<in>set (data st'). r_current_team_locked r = ts * tpct" if "ts * tpct < 0"
    using that team_no_unlock [OF r(2) i(7) i(3)] by simp
  have v1: "\<forall>r\<in>set (data st'). 0 \<le> r_current_private_sale_locked r" if "0 \<le> ts * ppct"
  proof -
    from that i(6) have "0 \<le> private_sale_monthly_unlock_amount st0" by simp
    from private_locked_decreases [OF r(2) i(7) i(4) that this] show ?thesis by simp
  qed
  have v2: "\<forall>r\<in>set (data st'). r_current_private_sale_locked r = ts * ppct"
    if "ts * ppct < 0"
    using that private_no_unlock [OF r(2) i(7) i(4)] by simp
  from t1 t2 v1 v2 have "\<forall>r\<in>set (data st').
         (0 \<le> ts * tpct \<longrightarrow> 0 \<le> r_current_team_locked r) \<and>
         (ts * tpct < 0 \<longrightarrow> r_current_team_locked r = ts * tpct) \<and>
         (0 \<le> ts * ppct \<longrightarrow> 0 \<le> r_current_private_sale_locked r) \<and>
         (ts * ppct < 0 \<longrightarrow> r_current_private_sale_locked r = ts * ppct)"
    by blast
  with r(3) f(1-3) show ?thesis by blast
qed

theorem locked_sign_preserved_witness:
  "numeric_config negative_team_params \<and>
   (\<exists>recs. run_simulation negative_team_params = Inr recs \<and>
      (\<forall>r\<in>set recs. r_current_team_locked r = - 200000000 \<and>
                       0 \<le> r_current_private_sale_locked r))"
proof -
  have n: "numeric_config negative_team_params"
    by (simp add: numeric_config_def negative_team_params_def sample_params_def)
  from locked_sign_preserved [OF n] obtain recs ts tpct ppct where
    r: "run_simulation negative_team_params = Inr recs"
       "total_supply negative_team_params = Some ts"
       "team_allocation_pct negative_team_params = Some tpct"
       "private_sale_pct negative_team_params = Some ppct"
       "\<forall>r\<in>set recs.
         (0 \<le> ts * tpct \<longrightarrow> 0 \<le> r_current_team_locked r) \<and>
         (ts * tpct < 0 \<longrightarrow> r_current_team_locked r = ts * tpct) \<and>
         (0 \<le> ts * ppct \<longrightarrow> 0 \<le> r_current_private_sale_locked r) \<and>
         (ts * ppct < 0 \<longrightarrow> r_current_private_sale_locked r = ts * ppct)"
    by blast
  from r(2-4) have "ts * tpct = - 200000000" "ts * ppct = 150000000"
    by (auto simp: negative_team_params_def sample_params_def)
  with r(1,5) n show ?thesis by simp
qed

subsection \<open>A cliff without linear vesting\<close>

text \<open>
  C8. For every configuration whose entries are all present: when the team's linear vesting
  period is 0 months, every record has nothing unlocked for the team and the locked team
  balance equal to the initial one (total supply times team allocation), also in the months
  after the cliff. The same holds for the private-sale bucket.
\<close>

theorem zero_vesting_never_unlocks:
  assumes "numeric_config p"
  shows "\<exists>recs ts tpct ppct. run_simulation p = Inr recs \<and> total_supply p = Some ts \<and>
      team_allocation_pct p = Some tpct \<and> private_sale_pct p = Some ppct \<and>
      (team_vesting_linear_months p = Some 0 \<longrightarrow>
         (\<forall>r\<in>set recs. r_unlocked_team r = 0 \<and> r_current_team_locked r = ts * tpct)) \<and>
      (private_sale_vesting_linear_months p = Some 0 \<longrightarrow>
         (\<forall>r\<in>set recs. r_unlocked_private_sale r = 0 \<and>
                          r_current_private_sale_locked r = ts * ppct))"
proof -
  from run_simulation_numeric [OF assms] obtain st0 d st' where
    r: "init_state p = Inr st0" "run_months p st0 [1..d] = Inr st'"
       "run_simulation p = Inr (data st')"
    by blast
  from assms obtain ts tpct ppct tv pv where
    f: "total_supply p = Some ts" "team_allocation_pct p = Some tpct"
       "private_sale_pct p = Some ppct" "team_vesting_linear_months p = Some tv"
       "private_sale_vesting_linear_months p = Some pv"
    by (auto simp: numeric_config_def)
  note i = init_state_fields [OF r(1) f]
  have t: "\<forall>r\<in>set (data st'). r_unlocked_team r = 0 \<and> r_current_team_locked r = ts * tpct"
    if "tv = 0"
    using that i(5) by (intro team_no_unlock [OF r(2) i(7) i(3)]) simp
  have v: "\<forall>r\<in>set (data st'). r_unlocked_private_sale r = 0 \<and>
                          r_current_private_sale_locked r = ts * ppct"
    if "pv = 0"
    using that i(6) by (intro private_no_unlock [OF r(2) i(7) i(4)]) simp
  from r(3) f t v show ?thesis by simp
qed

theorem zero_vesting_never_unlocks_witness:
  "numeric_config cliff_only_params \<and>
   team_vesting_linear_months cliff_only_params = Some 0 \<and>
   private_sale_vesting_linear_months cliff_only_params = Some 0 \<and>
   (\<exists>recs. run_simulation cliff_only_params = Inr recs \<and>
      (\<forall>r\<in>set recs. r_unlocked_team r = 0 \<and> r_current_team_locked r = 200000000 \<and>
         r_unlocked_private_sale r = 0 \<and> r_current_private_sale_locked r = 150000000))"
proof -
  have n: "numeric_config cliff_only_params"
    and z: "team_vesting_linear_months cliff_only_params = Some 0"
           "private_sale_vesting_linear_months cliff_only_params = Some 0"
    by (simp_all add: numeric_config_def cliff_only_params_def sample_params_def)
  from zero_vesting_never_unlocks [OF n] z obtain recs ts tpct ppct where
    r: "run_simulation cliff_only_params = Inr recs"
       "total_supply cliff_only_params = Some ts"
       "team_allocation_pct cliff_only_params = Some tpct"
       "private_sale_pct cliff_only_params = Some ppct"
       "\<forall>r\<in>set recs. r_unlocked_team r = 0 \<and> r_current_team_locked r = ts * tpct"
       "\<forall>r\<in>set recs. r_unlocked_private_sale r = 0 \<and>
                        r_current_private_sale_locked r = ts * ppct"
    by auto
  from r(2-4) have "ts * tpct = 200000000" "ts * ppct = 150000000"
    by (auto simp: cliff_only_params_def sample_params_def)
  with r(1,5,6) n z show ?thesis by simp
qed

subsection \<open>Absent entries\<close>

text \<open>
  C9, as stated (an absent required entry is rejected by checks made before the loop
  starts), fails: the function makes no such checks. Without the initial circulating supply
  the code before the loop completes, giving the state shown, the duration is read, and
  the \<open>TypeError\<close> is raised by the first iteration of the loop, at the update of the
  circulating supply (line 87).
\<close>

theorem error_inside_loop_counterexample:
  "init_state no_circulating_params =
     Inr \<lparr> current_total_supply = 1000000000,
           current_circulating_supply = None,
           current_team_locked = 200000000,
           current_private_sale_locked = 150000000,
           team_monthly_unlock_amount = 200000000 / 36,
           private_sale_monthly_unlock_amount = 6250000,
           data = [] \<rparr> \<and>
   simulation_duration_months no_circulating_params = Some 60 \<and>
   month_step no_circulating_params
     \<lparr> current_total_supply = 1000000000,
       current_circulating_supply = None,
       current_team_locked = 200000000,
       current_private_sale_locked = 150000000,
       team_monthly_unlock_amount = 200000000 / 36,
       private_sale_monthly_unlock_amount = 6250000,
       data = [] \<rparr> 1 = Inl TypeError"
  by (simp add: init_state_def month_step_def no_circulating_params_def sample_params_def
      Let_def)

text \<open>
  C9, amended. When an entry that the function uses is absent (and the duration, if
  present, is at least one month), the run raises \<open>TypeError\<close> and returns no records. The
  error arises where the absent value is first used as an operand: before the loop when the
  total supply, an allocation percentage or a vesting period is absent (or the duration,
  when the range is built); otherwise inside the first iteration of the loop.
\<close>

theorem absent_entry_raises:
  assumes "\<not> numeric_config p"
    and "simulation_duration_months p = None \<or> at_least 1 (simulation_duration_months p)"
  shows "run_simulation p = Inl TypeError \<and>
     (if setup_entries_absent p then init_state p = Inl TypeError
      else \<exists>st0. init_state p = Inr st0 \<and>
             (simulation_duration_months p \<noteq> None \<longrightarrow> month_step p st0 1 = Inl TypeError))"
proof (cases "setup_entries_absent p")
  case True
  from init_state_absent [OF True] have "init_state p = Inl TypeError" .
  with True show ?thesis by (simp add: run_simulation_def)
next
  case False
  from init_state_present [OF False] obtain st0 where
    i: "init_state p = Inr st0"
       "current_circulating_supply st0 = initial_circulating_supply p"
    by blast
  show ?thesis
  proof (cases "simulation_duration_months p")
    case None
    with i(1) False show ?thesis by (simp add: run_simulation_def)
  next
    case (Some d)
    with assms(2) have d: "1 \<le> d" by (simp add: at_least_def)
    from assms(1) False Some i(2) have
      "team_cliff_months p = None \<or> private_sale_cliff_months p = None \<or>
       transaction_fee_burn_pct p = None \<or> monthly_emission_tokens p = None \<or>
       current_circulating_supply st0 = None"
      by (auto simp: numeric_config_def setup_entries_absent_def)
    from month_step_absent [OF this] have s: "month_step p st0 1 = Inl TypeError" .
    from d have "[1..d] = 1 # [1 + 1..d]" by (rule upto_rec1)
    with s have "run_months p st0 [1..d] = Inl TypeError" by simp
    with i(1) Some s False show ?thesis by (simp add: run_simulation_def)
  qed
qed

theorem absent_entry_raises_witness:
  "(\<not> numeric_config no_circulating_params \<and>
    at_least 1 (simulation_duration_months no_circulating_params) \<and>
    \<not> setup_entries_absent no_circulating_params \<and>
    run_simulation no_circulating_params = Inl TypeError \<and>
    (\<exists>st0. init_state no_circulating_params = Inr st0 \<and>
           month_step no_circulating_params st0 1 = Inl TypeError)) \<and>
   (\<not> numeric_config no_supply_params \<and>
    at_least 1 (simulation_duration_months no_supply_params) \<and>
    setup_entries_absent no_supply_params \<and>
    run_simulation no_supply_params = Inl TypeError \<and>
    init_state no_supply_params = Inl TypeError)"
proof
  show "\<not> numeric_config no_circulating_params \<and>
    at_least 1 (simulation_duration_months no_circulating_params) \<and>
    \<not> setup_entries_absent no_circulating_params \<and>
    run_simulation no_circulating_params = Inl TypeError \<and>
    (\<exists>st0. init_state no_circulating_params = Inr st0 \<and>
           month_step no_circulating_params st0 1 = Inl TypeError)"
    using absent_entry_raises [of no_circulating_params]
    by (simp add: numeric_config_def setup_entries_absent_def at_least_def
        no_circulating_params_def sample_params_def)
next
  show "\<not> numeric_config no_supply_params \<and>
    at_least 1 (simulation_duration_months no_supply_params) \<and>
    setup_entries_absent no_supply_params \<and>
    run_simulation no_supply_params = Inl TypeError \<and>
    init_state no_supply_params = Inl TypeError"
    using absent_entry_raises [of no_supply_params]
    by (simp add: numeric_config_def setup_entries_absent_def at_least_def
        no_supply_params_def sample_params_def)
qed

subsection \<open>The default transaction volume\<close>

text \<open>
  C10. When the entry \<open>monthly_simulated_transactions\<close> is absent the run is the run with
  the entry set to 1,000,000: nothing is raised or reported on its account, and when the
  other entries are present every record's burned tokens are 1,000,000 times the burn
  percentage.
\<close>

theorem absent_transactions_default:
  assumes "monthly_simulated_transactions p = None"
  shows "run_simulation p =
           run_simulation (p\<lparr>monthly_simulated_transactions := Some 1000000\<rparr>) \<and>
         (numeric_config p \<longrightarrow>
           (\<exists>recs fee. run_simulation p = Inr recs \<and> transaction_fee_burn_pct p = Some fee \<and>
              (\<forall>r\<in>set recs. r_burned_tokens r = 1000000 * fee)))"
proof
  show "run_simulation p =
           run_simulation (p\<lparr>monthly_simulated_transactions := Some 1000000\<rparr>)"
    by (simp add: run_simulation_def init_state_default run_months_default [OF assms])
next
  show "numeric_config p \<longrightarrow>
           (\<exists>recs fee. run_simulation p = Inr recs \<and> transaction_fee_burn_pct p = Some fee \<and>
              (\<forall>r\<in>set recs. r_burned_tokens r = 1000000 * fee))"
  proof
    assume n: "numeric_config p"
    from run_simulation_numeric [OF n] obtain st0 d st' where
      r: "init_state p = Inr st0" "run_months p st0 [1..d] = Inr st'"
         "run_simulation p = Inr (data st')"
      by blast
    from n obtain em fee where
      f: "monthly_emission_tokens p = Some em" "transaction_fee_burn_pct p = Some fee"
      by (auto simp: numeric_config_def)
    from assms have "get_monthly_simulated_transactions p = 1000000"
      by (simp add: get_monthly_simulated_transactions_def)
    with run_months_mint_burn [OF r(2) f init_state_data [OF r(1)]]
    have "\<forall>r\<in>set (data st'). r_burned_tokens r = 1000000 * fee"
      by simp
    with r(3) f(2) show "\<exists>recs fee. run_simulation p = Inr recs \<and>
        transaction_fee_burn_pct p = Some fee \<and>
        (\<forall>r\<in>set recs. r_burned_tokens r = 1000000 * fee)"
      by blast
  qed
qed

theorem absent_transactions_default_witness:
  "monthly_simulated_transactions no_transactions_params = None \<and>
   numeric_config no_transactions_params \<and>
   run_simulation no_transactions_params =
     run_simulation (no_transactions_params \<lparr>monthly_simulated_transactions := Some 1000000\<rparr>) \<and>
   (\<exists>recs. run_simulation no_transactions_params = Inr recs \<and>
      (\<forall>r\<in>set recs. r_burned_tokens r = 1000))"
proof -
  have a: "monthly_simulated_transactions no_transactions_params = None"
    and n: "numeric_config no_transactions_params"
    by (simp_all add: numeric_config_def no_transactions_params_def sample_params_def)
  note t = absent_transactions_default [OF a]
  from t have
    e: "run_simulation no_transactions_params =
          run_simulation (no_transactions_params \<lparr>monthly_simulated_transactions := Some 1000000\<rparr>)"
    by (rule conjunct1)
  from t n obtain recs fee where
    r: "run_simulation no_transactions_params = Inr recs"
       "transaction_fee_burn_pct no_transactions_params = Some fee"
       "\<forall>r\<in>set recs. r_burned_tokens r = 1000000 * fee"
    by blast
  from r(2) have "1000000 * fee = 1000"
    by (auto simp: no_transactions_params_def sample_params_def)
  with r(1,3) have "\<exists>recs. run_simulation no_transactions_params = Inr recs \<and>
      (\<forall>r\<in>set recs. r_burned_tokens r = 1000)"
    by simp
  with a n e show ?thesis by simp
qed

end
